theory Spec2Isabelle
  imports Main "HOL-Library.Word"
begin

section \<open>Types, type identities and object representations\<close>

text \<open>
  The header \<^verbatim>\<open>any.hpp\<close> is a set of templates. A template argument is a C++ type, and
  the code asks three things of a type: its size (\<^verbatim>\<open>sizeof\<close>), whether it is trivially
  copyable, and its identity (\<^verbatim>\<open>typeid\<close>). Overload resolution asks a fourth: whether
  the type is a specialisation \<^verbatim>\<open>static_any<_M>\<close> of the container itself, for which the
  header has constructors and assignments of their own. A declared type is therefore a
  record of its name and of these compile-time facts; an object type adds the
  cv-qualifiers, and a type as a template argument may also be a reference to an object
  type.
\<close>

type_synonym byte = "8 word"

record type_decl =
  type_name :: string
  size_of :: nat
  trivially_copyable :: bool
  specialises_static_any :: bool

record obj_type =
  decl :: type_decl
  is_const :: bool
  is_volatile :: bool

datatype cpp_type = Object obj_type | Lvalue_ref obj_type | Rvalue_ref obj_type

definition unqualified :: "type_decl \<Rightarrow> obj_type" where
  "unqualified d = \<lparr>decl = d, is_const = False, is_volatile = False\<rparr>"

text \<open>\<^verbatim>\<open>std::remove_reference_t\<close>: the type referred to.\<close>

fun remove_reference_t :: "cpp_type \<Rightarrow> obj_type" where
  "remove_reference_t (Object t) = t"
| "remove_reference_t (Lvalue_ref t) = t"
| "remove_reference_t (Rvalue_ref t) = t"

text \<open>\<^verbatim>\<open>std::remove_cv_t\<close> on an object type: both top-level qualifiers go.\<close>

definition remove_cv_t :: "obj_type \<Rightarrow> obj_type" where
  "remove_cv_t t = t\<lparr>is_const := False, is_volatile := False\<rparr>"

text \<open>\<^verbatim>\<open>_T&&\<close> with reference collapsing, and \<^verbatim>\<open>std::is_rvalue_reference\<close>.\<close>

fun add_rvalue_reference :: "cpp_type \<Rightarrow> cpp_type" where
  "add_rvalue_reference (Object t) = Rvalue_ref t"
| "add_rvalue_reference (Lvalue_ref t) = Lvalue_ref t"
| "add_rvalue_reference (Rvalue_ref t) = Rvalue_ref t"

fun is_rvalue_reference :: "cpp_type \<Rightarrow> bool" where
  "is_rvalue_reference (Rvalue_ref t) = True"
| "is_rvalue_reference (Object t) = False"
| "is_rvalue_reference (Lvalue_ref t) = False"

text \<open>\<^verbatim>\<open>sizeof\<close> of a reference type is the size of the type referred to.\<close>

definition sizeof :: "cpp_type \<Rightarrow> nat" where
  "sizeof T = size_of (decl (remove_reference_t T))"

text \<open>
  \<^verbatim>\<open>std::is_trivially_copyable\<close>: a reference type is never trivially copyable; a
  cv-qualified object type is when the declared type is.
\<close>

fun is_trivially_copyable :: "cpp_type \<Rightarrow> bool" where
  "is_trivially_copyable (Object t) = trivially_copyable (decl t)"
| "is_trivially_copyable (Lvalue_ref t) = False"
| "is_trivially_copyable (Rvalue_ref t) = False"

text \<open>
  \<^verbatim>\<open>std::type_info\<close>: \<^verbatim>\<open>typeid\<close> ignores references and top-level cv-qualifiers, and
  \<^verbatim>\<open>typeid(void)\<close> is the identity of no object type. Two \<^verbatim>\<open>std::type_index\<close> values
  are equal when the identities are, so the model compares identities directly.
\<close>

datatype type_info = Typeid_void | Typeid type_decl

definition typeid :: "cpp_type \<Rightarrow> type_info" where
  "typeid T = Typeid (decl (remove_reference_t T))"

text \<open>
  \<^verbatim>\<open>std::type_info::name()\<close> is implementation-defined; here it is the declared name of
  the type.
\<close>

fun name :: "type_info \<Rightarrow> string" where
  "name Typeid_void = ''void''"
| "name (Typeid d) = type_name d"

text \<open>
  A value of an object type is its object representation: \<^verbatim>\<open>sizeof\<close> bytes. A buffer
  (\<^verbatim>\<open>std::array<char, _N>\<close>) is a list of \<^verbatim>\<open>_N\<close> bytes. Reading an object of type T at
  the start of a region takes its first \<^verbatim>\<open>sizeof(T)\<close> bytes; constructing an object at
  the start of a region overwrites as many bytes as the object has. Either one outside the
  region is undefined behaviour in C++, and the value \<open>Out_of_bounds\<close> here.

  An operation returns its result (\<open>Inr\<close>) or the way it fails (\<open>Inl\<close>): a
  \<^verbatim>\<open>static_assert\<close> that rejects the program at compile time, with its message; a body
  that is ill-formed for its template argument, which rejects the program at compile time
  as well; an \<^verbatim>\<open>assert\<close> that aborts; an access out of bounds; a call through a null function pointer;
  or the exception \<^verbatim>\<open>bad_any_cast\<close>, thrown with the two identities and the message it is
  constructed with.
\<close>

record bad_any_cast =
  stored_type :: type_info
  target_type :: type_info
  what :: string

datatype failure =
    Static_assert_failed string
  | Ill_formed string
  | Assertion_failed
  | Out_of_bounds
  | Null_function_call
  | Thrown bad_any_cast

definition load :: "obj_type \<Rightarrow> byte list \<Rightarrow> failure + byte list" where
  "load T src =
     (if size_of (decl T) \<le> length src then Inr (take (size_of (decl T)) src)
      else Inl Out_of_bounds)"

definition placement_new :: "obj_type \<Rightarrow> byte list \<Rightarrow> byte list \<Rightarrow> failure + byte list" where
  "placement_new T dst obj =
     (if size_of (decl T) \<le> length dst then Inr (obj @ drop (size_of (decl T)) dst)
      else Inl Out_of_bounds)"

text \<open>
  A pointer that the container hands out points into its own buffer: it is the offset from
  \<^verbatim>\<open>buff_.data()\<close> and the type pointed to. A reference is a pointer that is not null.
  Reading through it loads an object of that type at that offset of the buffer.
\<close>

record pointer =
  offset :: nat
  pointee :: obj_type

definition deref :: "byte list \<Rightarrow> pointer \<Rightarrow> failure + byte list" where
  "deref b p = load (pointee p) (drop (offset p) b)"

text \<open>
  What a region holds after a call that was given a pointer to it: what the callee left
  there, or what it held before when the pointer passed was null.
\<close>

definition contents :: "byte list option \<Rightarrow> byte list \<Rightarrow> byte list" where
  "contents left_there held = (case left_there of None \<Rightarrow> held | Some b \<Rightarrow> b)"

section \<open>The dispatch routine\<close>

text \<open>
  \<^verbatim>\<open>detail::static_any::operation<_T>\<close>. The two \<^verbatim>\<open>void*\<close> arguments are passed as the
  regions they point to (\<open>None\<close> is \<^verbatim>\<open>nullptr\<close>), and the regions are returned as the call
  leaves them; the two regions are distinct objects. The constructors and the destructor of
  \<^verbatim>\<open>_T\<close> are not part of the header: a call of one of them is recorded as an event, a
  copy or move constructor gives the new object the representation of its argument, and
  the bytes of a moved-from or destroyed object are left as they were. The \<^verbatim>\<open>assert\<close>s
  are taken as enabled.
\<close>

datatype operation_t = Query_type | Copy | Move | Destroy

datatype event =
    Constructed obj_type
  | Copy_constructed obj_type
  | Move_constructed obj_type
  | Destroyed obj_type

record op_result =
  this_mem :: "byte list option"
  other_mem :: "byte list option"
  calls :: "event list"
  returned :: type_info

definition construct_from ::
  "obj_type \<Rightarrow> event \<Rightarrow> byte list option \<Rightarrow> byte list option \<Rightarrow> failure + op_result" where
  "construct_from T ev this_ptr other_ptr =
     (case this_ptr of
        None \<Rightarrow> Inl Assertion_failed
      | Some dst \<Rightarrow>
          (case other_ptr of
             None \<Rightarrow> Inl Assertion_failed
           | Some src \<Rightarrow>
               (case load T src of
                  Inl e \<Rightarrow> Inl e
                | Inr obj \<Rightarrow>
                    (case placement_new T dst obj of
                       Inl e \<Rightarrow> Inl e
                     | Inr dst' \<Rightarrow>
                         Inr \<lparr>this_mem = Some dst', other_mem = Some src, calls = [ev],
                              returned = typeid (Object T)\<rparr>))))"

fun operation ::
  "obj_type \<Rightarrow> operation_t \<Rightarrow> byte list option \<Rightarrow> byte list option \<Rightarrow> failure + op_result" where
  "operation T Query_type this_ptr other_ptr =
     Inr \<lparr>this_mem = this_ptr, other_mem = other_ptr, calls = [],
          returned = typeid (Object T)\<rparr>"
| "operation T Copy this_ptr other_ptr =
     construct_from T (Copy_constructed T) this_ptr other_ptr"
| "operation T Move this_ptr other_ptr =
     construct_from T (Move_constructed T) this_ptr other_ptr"
| "operation T Destroy this_ptr other_ptr =
     (case this_ptr of
        None \<Rightarrow> Inl Assertion_failed
      | Some dst \<Rightarrow>
          Inr \<lparr>this_mem = Some dst, other_mem = other_ptr, calls = [Destroyed T],
               returned = typeid (Object T)\<rparr>)"

text \<open>
  \<^verbatim>\<open>function_ptr_t\<close>: the address of one instantiation of \<^verbatim>\<open>operation\<close>. The template is
  declared \<^verbatim>\<open>static\<close> in a header, so every translation unit has its own instantiation
  for a type, at its own address: a function pointer is the pair of the translation unit
  (a number) and the type. \<open>call\<close> is the call through the pointer.
\<close>

datatype function_ptr_t = Operation nat obj_type

fun call ::
  "function_ptr_t \<Rightarrow> operation_t \<Rightarrow> byte list option \<Rightarrow> byte list option
    \<Rightarrow> failure + op_result" where
  "call (Operation tu U) op this_ptr other_ptr = operation U op this_ptr other_ptr"

definition get_function_for_type :: "nat \<Rightarrow> cpp_type \<Rightarrow> function_ptr_t" where
  "get_function_for_type tu T = Operation tu (remove_cv_t (remove_reference_t T))"

section \<open>The safe container\<close>

text \<open>
  \<^verbatim>\<open>static_any<_N>\<close>: the buffer and the function pointer (\<open>None\<close> is \<^verbatim>\<open>nullptr\<close>).
  \<^verbatim>\<open>_N\<close> is the length of the buffer. The defaulted constructor leaves the buffer
  uninitialised: its bytes \<open>b\<close> are arbitrary, and given.
\<close>

record static_any =
  buff :: "byte list"
  func :: "function_ptr_t option"

definition static_any_default :: "byte list \<Rightarrow> static_any" where
  "static_any_default b = \<lparr>buff = b, func = None\<rparr>"

definition capacity :: "static_any \<Rightarrow> nat" where
  "capacity a = length (buff a)"

definition empty :: "static_any \<Rightarrow> bool" where
  "empty a = (func a = None)"

text \<open>\<^verbatim>\<open>has<_T>()\<close>, instantiated in translation unit \<open>tu\<close>.\<close>

definition has :: "nat \<Rightarrow> static_any \<Rightarrow> cpp_type \<Rightarrow> failure + bool" where
  "has tu a T =
     (if func a = Some (get_function_for_type tu T) then Inr True
      else
        (case func a of
           Some f \<Rightarrow>
             (case call f Query_type None None of
                Inl e \<Rightarrow> Inl e
              | Inr r \<Rightarrow> Inr (typeid T = returned r))
         | None \<Rightarrow> Inr False))"

text \<open>\<^verbatim>\<open>type()\<close>.\<close>

definition type :: "static_any \<Rightarrow> failure + type_info" where
  "type a =
     (if empty a then Inr Typeid_void
      else
        (case func a of
           None \<Rightarrow> Inl Null_function_call
         | Some f \<Rightarrow>
             (case call f Query_type (Some (buff a)) None of
                Inl e \<Rightarrow> Inl e
              | Inr r \<Rightarrow> Inr (returned r))))"

text \<open>\<^verbatim>\<open>destroy()\<close>, and \<^verbatim>\<open>reset()\<close>, which is the same call.\<close>

definition destroy :: "static_any \<Rightarrow> failure + static_any \<times> event list" where
  "destroy a =
     (case func a of
        None \<Rightarrow> Inr (a, [])
      | Some f \<Rightarrow>
          (case call f Destroy (Some (buff a)) None of
             Inl e \<Rightarrow> Inl e
           | Inr r \<Rightarrow>
               Inr (a\<lparr>buff := contents (this_mem r) (buff a), func := None\<rparr>, calls r)))"

definition reset :: "static_any \<Rightarrow> failure + static_any \<times> event list" where
  "reset a = destroy a"

text \<open>
  \<^verbatim>\<open>call_function<Ref>\<close>: the two overloads are selected by
  \<^verbatim>\<open>std::is_rvalue_reference<Ref>\<close>.
\<close>

definition call_function ::
  "cpp_type \<Rightarrow> static_any \<Rightarrow> byte list option \<Rightarrow> byte list option \<Rightarrow> failure + op_result" where
  "call_function Ref a this_void_ptr other_void_ptr =
     (case func a of
        None \<Rightarrow> Inl Null_function_call
      | Some f \<Rightarrow>
          call f (if is_rvalue_reference Ref then Move else Copy) this_void_ptr other_void_ptr)"

text \<open>
  Overload resolution, for a constructor call or an assignment with one argument. \<open>T\<close> is
  the type of the argument as a forwarding reference deduces it: an lvalue reference type
  for an lvalue, an object type for an rvalue. An argument that is a container (a
  specialisation of \<^verbatim>\<open>static_any\<close>, \<^verbatim>\<open>const\<close> or not, but not \<^verbatim>\<open>volatile\<close>) selects
  the constructors and assignments from another container, which are more specialised
  than the templates for a value. Of the two assignment templates, \<^verbatim>\<open>operator=(const _T&)\<close>
  is the more specialised one for a \<^verbatim>\<open>const\<close> lvalue, and \<^verbatim>\<open>operator=(_T&&)\<close> the
  better match for every other argument; the only constructor template for a value is
  \<^verbatim>\<open>static_any(_T&&)\<close>.
\<close>

datatype overload = From_value | From_const_value | From_container

definition is_container :: "cpp_type \<Rightarrow> bool" where
  "is_container T =
     (specialises_static_any (decl (remove_reference_t T))
      \<and> \<not> is_volatile (remove_reference_t T))"

fun is_const_lvalue :: "cpp_type \<Rightarrow> bool" where
  "is_const_lvalue (Lvalue_ref t) = is_const t"
| "is_const_lvalue (Object t) = False"
| "is_const_lvalue (Rvalue_ref t) = False"

definition selected_constructor :: "cpp_type \<Rightarrow> overload" where
  "selected_constructor T = (if is_container T then From_container else From_value)"

definition selected_assignment :: "cpp_type \<Rightarrow> overload" where
  "selected_assignment T =
     (if is_container T then From_container
      else if is_const_lvalue T then From_const_value
      else From_value)"

text \<open>
  \<^verbatim>\<open>copy_or_move<_T>(t)\<close>, instantiated in translation unit \<open>tu\<close>. \<open>T\<close> is the deduced
  \<^verbatim>\<open>_T\<close> (an lvalue reference type for an lvalue argument, an object type for an rvalue),
  \<open>t\<close> the object the argument refers to. The \<^verbatim>\<open>static_assert\<close> is decided by the
  compiler, before anything runs.
\<close>

definition copy_or_move ::
  "nat \<Rightarrow> cpp_type \<Rightarrow> static_any \<Rightarrow> byte list \<Rightarrow> failure + static_any \<times> event list" where
  "copy_or_move tu T a t =
     (if \<not> capacity a \<ge> sizeof T
      then Inl (Static_assert_failed ''_T is too big to be copied to static_any'')
      else if func a \<noteq> None then Inl Assertion_failed
      else
        (let a' = a\<lparr>func := Some (get_function_for_type tu T)\<rparr> in
           (case call_function (add_rvalue_reference T) a' (Some (buff a')) (Some t) of
              Inl e \<Rightarrow> Inl e
            | Inr r \<Rightarrow> Inr (a'\<lparr>buff := contents (this_mem r) (buff a')\<rparr>, calls r))))"

text \<open>
  The constructor template \<^verbatim>\<open>static_any(_T&& v)\<close>, on a fresh object whose uninitialised
  buffer holds \<open>b\<close>. It is the constructor that runs when \<open>selected_constructor T\<close> is
  \<open>From_value\<close>; a container argument runs \<open>static_any_copy\<close> or \<open>static_any_move\<close>
  below instead.

  The assignment from a value, by the two templates \<^verbatim>\<open>operator=(const _T&)\<close> and
  \<^verbatim>\<open>operator=(_T&&)\<close>. Their bodies are the same text, but in the first one
  \<^verbatim>\<open>std::forward<_T>(t)\<close> is applied to a \<^verbatim>\<open>const\<close> lvalue with \<^verbatim>\<open>_T\<close> not a reference,
  which matches no overload of \<^verbatim>\<open>std::forward\<close>: an assignment from a \<^verbatim>\<open>const\<close> lvalue
  does not compile. A container argument runs \<open>assign_copy\<close> or \<open>assign_move\<close> below
  instead.
\<close>

definition static_any_of_value ::
  "nat \<Rightarrow> cpp_type \<Rightarrow> byte list \<Rightarrow> byte list \<Rightarrow> failure + static_any \<times> event list" where
  "static_any_of_value tu T b v = copy_or_move tu T (static_any_default b) v"

definition assign_value ::
  "nat \<Rightarrow> cpp_type \<Rightarrow> static_any \<Rightarrow> byte list \<Rightarrow> failure + static_any \<times> event list" where
  "assign_value tu T a t =
     (if is_const_lvalue T
      then Inl (Ill_formed ''no matching function for call to forward'')
      else
        (case destroy a of
           Inl e \<Rightarrow> Inl e
         | Inr (a1, ev1) \<Rightarrow>
             (case copy_or_move tu T a1 t of
                Inl e \<Rightarrow> Inl e
              | Inr (a2, ev2) \<Rightarrow> Inr (a2, ev1 @ ev2))))"

text \<open>
  \<^verbatim>\<open>emplace<_T>(args...)\<close>: \<open>v\<close> is the object that \<^verbatim>\<open>_T(args...)\<close> constructs. There is
  no \<^verbatim>\<open>static_assert\<close> in this function.
\<close>

definition emplace ::
  "nat \<Rightarrow> obj_type \<Rightarrow> static_any \<Rightarrow> byte list \<Rightarrow> failure + static_any \<times> event list" where
  "emplace tu T a v =
     (case destroy a of
        Inl e \<Rightarrow> Inl e
      | Inr (a1, ev1) \<Rightarrow>
          (case placement_new T (buff a1) v of
             Inl e \<Rightarrow> Inl e
           | Inr b \<Rightarrow>
               Inr (a1\<lparr>buff := b, func := Some (get_function_for_type tu (Object T))\<rparr>,
                    ev1 @ [Constructed T])))"

text \<open>
  \<^verbatim>\<open>copy_from_another(another)\<close>. The other container is a distinct object; it is handed
  to the dispatch routine through a pointer that has lost its \<^verbatim>\<open>const\<close>, so it is
  returned as the call leaves it.
\<close>

definition copy_from_another ::
  "static_any \<Rightarrow> static_any \<Rightarrow> failure + static_any \<times> static_any \<times> event list" where
  "copy_from_another a another =
     (case func another of
        None \<Rightarrow> Inr (a, another, [])
      | Some f \<Rightarrow>
          (let a' = a\<lparr>func := Some f\<rparr> in
             (case call f Copy (Some (buff a')) (Some (buff another)) of
                Inl e \<Rightarrow> Inl e
              | Inr r \<Rightarrow>
                  Inr (a'\<lparr>buff := contents (this_mem r) (buff a')\<rparr>,
                       another\<lparr>buff := contents (other_mem r) (buff another)\<rparr>,
                       calls r))))"

text \<open>
  The constructors from another container (of the same or of another capacity; a
  \<^verbatim>\<open>const&\<close>, a \<^verbatim>\<open>&\<close> or a \<^verbatim>\<open>&&\<close>) all have the one body. The copy and the move
  flavour are kept apart here as they are in the header. The object under construction is
  a new one, so the other container is a distinct object.
\<close>

definition static_any_copy ::
  "byte list \<Rightarrow> static_any \<Rightarrow> failure + static_any \<times> static_any \<times> event list" where
  "static_any_copy b another = copy_from_another (static_any_default b) another"


text \<open>
  The assignments from another container all have the one body too:
  \<^verbatim>\<open>destroy(); copy_from_another(another); return *this;\<close>. The right-hand side of an
  assignment may be the container assigned to (\<^verbatim>\<open>a = a\<close>, \<^verbatim>\<open>a = std::move(a)\<close>), and no
  assignment looks for that: \<^verbatim>\<open>another\<close> is then \<^verbatim>\<open>*this\<close>, the object that
  \<^verbatim>\<open>destroy()\<close> has just emptied. The result is the container assigned to, the right-hand
  side as the call leaves it (the same object, when it is the container itself), and the
  calls made.
\<close>

datatype operand = Itself | Another static_any

definition assign_copy ::
  "static_any \<Rightarrow> operand \<Rightarrow> failure + static_any \<times> static_any \<times> event list" where
  "assign_copy a rhs =
     (case destroy a of
        Inl e \<Rightarrow> Inl e
      | Inr (a1, ev1) \<Rightarrow>
          (case rhs of
             Itself \<Rightarrow>
               (case copy_from_another a1 a1 of
                  Inl e \<Rightarrow> Inl e
                | Inr (a2, another', ev2) \<Rightarrow> Inr (a2, a2, ev1 @ ev2))
           | Another another \<Rightarrow>
               (case copy_from_another a1 another of
                  Inl e \<Rightarrow> Inl e
                | Inr (a2, another', ev2) \<Rightarrow> Inr (a2, another', ev1 @ ev2))))"

definition assign_move ::
  "static_any \<Rightarrow> operand \<Rightarrow> failure + static_any \<times> static_any \<times> event list" where
  "assign_move a rhs =
     (case destroy a of
        Inl e \<Rightarrow> Inl e
      | Inr (a1, ev1) \<Rightarrow>
          (case rhs of
             Itself \<Rightarrow>
               (case copy_from_another a1 a1 of
                  Inl e \<Rightarrow> Inl e
                | Inr (a2, another', ev2) \<Rightarrow> Inr (a2, a2, ev1 @ ev2))
           | Another another \<Rightarrow>
               (case copy_from_another a1 another of
                  Inl e \<Rightarrow> Inl e
                | Inr (a2, another', ev2) \<Rightarrow> Inr (a2, another', ev1 @ ev2))))"

section \<open>The accessors\<close>

text \<open>\<^verbatim>\<open>as<_T>()\<close>: the start of the buffer, as a pointer to \<^verbatim>\<open>_T\<close>.\<close>

definition as :: "static_any \<Rightarrow> obj_type \<Rightarrow> pointer" where
  "as a T = \<lparr>offset = 0, pointee = T\<rparr>"

text \<open>The constructor of \<^verbatim>\<open>bad_any_cast\<close>.\<close>

definition new_bad_any_cast :: "type_info \<Rightarrow> type_info \<Rightarrow> bad_any_cast" where
  "new_bad_any_cast stored requested =
     \<lparr>stored_type = stored, target_type = requested,
      what = ''failed conversion using any_cast: stored type '' @ name stored
             @ '', trying to cast to '' @ name requested\<rparr>"

text \<open>
  \<^verbatim>\<open>any_cast<_ValueT>(static_any<_S>*)\<close> and \<^verbatim>\<open>any_cast<_ValueT>(static_any<_S>&)\<close>.
  \<^verbatim>\<open>_ValueT\<close> is an object type: a pointer to a reference type does not compile. A null
  pointer is \<open>None\<close>. \<^verbatim>\<open>get<_T>()\<close> forwards to the second.
\<close>

definition any_cast_pointer :: "nat \<Rightarrow> obj_type \<Rightarrow> static_any \<Rightarrow> failure + pointer option" where
  "any_cast_pointer tu ValueT a =
     (case has tu a (Object ValueT) of
        Inl e \<Rightarrow> Inl e
      | Inr h \<Rightarrow> if \<not> h then Inr None else Inr (Some (as a ValueT)))"

definition any_cast_reference :: "nat \<Rightarrow> obj_type \<Rightarrow> static_any \<Rightarrow> failure + pointer" where
  "any_cast_reference tu ValueT a =
     (case has tu a (Object ValueT) of
        Inl e \<Rightarrow> Inl e
      | Inr h \<Rightarrow>
          if \<not> h then
            (case type a of
               Inl e \<Rightarrow> Inl e
             | Inr stored \<Rightarrow> Inl (Thrown (new_bad_any_cast stored (typeid (Object ValueT)))))
          else Inr (as a ValueT))"

definition get :: "nat \<Rightarrow> obj_type \<Rightarrow> static_any \<Rightarrow> failure + pointer" where
  "get tu T a = any_cast_reference tu T a"

section \<open>The holder of trivially copyable values\<close>

text \<open>
  \<^verbatim>\<open>static_any_t<_N>\<close> has the buffer only. \<^verbatim>\<open>copy<_ValueT>\<close> is called with the deduced
  \<^verbatim>\<open>_ValueT\<close>, and both \<^verbatim>\<open>static_assert\<close>s are about that type as deduced.
\<close>

record static_any_t =
  pod_buff :: "byte list"

definition capacity_t :: "static_any_t \<Rightarrow> nat" where
  "capacity_t a = length (pod_buff a)"

definition memcpy :: "byte list \<Rightarrow> byte list \<Rightarrow> nat \<Rightarrow> failure + byte list" where
  "memcpy dst src n =
     (if n \<le> length dst \<and> n \<le> length src then Inr (take n src @ drop n dst)
      else Inl Out_of_bounds)"

definition copy :: "cpp_type \<Rightarrow> static_any_t \<Rightarrow> byte list \<Rightarrow> failure + static_any_t" where
  "copy ValueT a t =
     (if \<not> is_trivially_copyable ValueT
      then Inl (Static_assert_failed ''_ValueT is not trivially copyable'')
      else if \<not> capacity_t a \<ge> sizeof ValueT
      then Inl (Static_assert_failed ''_ValueT is too big to be copied to static_any'')
      else
        (case memcpy (pod_buff a) t (sizeof ValueT) of
           Inl e \<Rightarrow> Inl e
         | Inr b \<Rightarrow> Inr (a\<lparr>pod_buff := b\<rparr>)))"

definition static_any_t_of_value ::
  "cpp_type \<Rightarrow> byte list \<Rightarrow> byte list \<Rightarrow> failure + static_any_t" where
  "static_any_t_of_value ValueT b t = copy ValueT \<lparr>pod_buff = b\<rparr> t"

definition assign_t :: "cpp_type \<Rightarrow> static_any_t \<Rightarrow> byte list \<Rightarrow> failure + static_any_t" where
  "assign_t ValueT a t = copy ValueT a t"

definition get_t :: "obj_type \<Rightarrow> static_any_t \<Rightarrow> pointer" where
  "get_t ValueT a = \<lparr>offset = 0, pointee = ValueT\<rparr>"

section \<open>Notions used in the statements\<close>

text \<open>
  The type a dispatch routine was instantiated for; the destructor calls that destroying
  the current value of a container makes (none when it is empty); and the invariant of
  the data model, that the held object lies within the buffer.
\<close>

fun instantiated_for :: "function_ptr_t \<Rightarrow> obj_type" where
  "instantiated_for (Operation tu U) = U"

definition destructor_calls :: "static_any \<Rightarrow> event list" where
  "destructor_calls a =
     (case func a of None \<Rightarrow> [] | Some f \<Rightarrow> [Destroyed (instantiated_for f)])"

definition in_bounds :: "static_any \<Rightarrow> bool" where
  "in_bounds a =
     (case func a of None \<Rightarrow> True | Some f \<Rightarrow> size_of (decl (instantiated_for f)) \<le> capacity a)"

text \<open>
  Types and containers for the concrete instances: a 4-byte and an 8-byte type, and the
  type \<^verbatim>\<open>static_any<16>\<close>, of 24 bytes where a function pointer has 8.
\<close>

definition int_t :: obj_type where
  "int_t = unqualified \<lparr>type_name = ''int'', size_of = 4, trivially_copyable = True,
                         specialises_static_any = False\<rparr>"

definition double_t :: obj_type where
  "double_t = unqualified \<lparr>type_name = ''double'', size_of = 8, trivially_copyable = True,
                            specialises_static_any = False\<rparr>"

definition static_any_16_t :: obj_type where
  "static_any_16_t = unqualified \<lparr>type_name = ''static_any<16>'', size_of = 24,
                                   trivially_copyable = False, specialises_static_any = True\<rparr>"

definition holds_int_16 :: static_any where
  "holds_int_16 = \<lparr>buff = [42, 0, 0, 0, 7, 7, 7, 7, 7, 7, 7, 7, 7, 7, 7, 7],
                   func = Some (Operation 0 int_t)\<rparr>"

definition holds_int :: static_any where
  "holds_int = \<lparr>buff = [42, 0, 0, 0, 7, 7, 7, 7], func = Some (Operation 0 int_t)\<rparr>"

definition holds_double :: static_any where
  "holds_double = \<lparr>buff = [0, 0, 0, 0, 0, 0, 12, 64], func = Some (Operation 0 double_t)\<rparr>"

section \<open>What the operations compute\<close>

text \<open>
  The type query never fails, so neither do \<^verbatim>\<open>has\<close> and \<^verbatim>\<open>type()\<close>: \<^verbatim>\<open>has<T>()\<close> holds
  exactly when a routine is installed whose type has the identity of \<open>T\<close>, through the
  comparison of the pointers or through the comparison of the identities.
\<close>

lemma call_query:
  "call f Query_type p q =
     Inr \<lparr>this_mem = p, other_mem = q, calls = [],
          returned = typeid (Object (instantiated_for f))\<rparr>"
  by (cases f) simp

lemma has_eq:
  "has tu a T =
     Inr (case func a of
            None \<Rightarrow> False
          | Some f \<Rightarrow> typeid T = typeid (Object (instantiated_for f)))"
  by (auto simp: has_def call_query get_function_for_type_def typeid_def remove_cv_t_def
      split: option.splits)

lemma type_eq:
  "type a =
     Inr (case func a of
            None \<Rightarrow> Typeid_void
          | Some f \<Rightarrow> typeid (Object (instantiated_for f)))"
  by (auto simp: type_def call_query empty_def split: option.splits)

text \<open>Destroying never fails, and leaves the buffer as it is.\<close>

lemma destroy_eq:
  "destroy a = Inr (a\<lparr>func := None\<rparr>, destructor_calls a)"
  by (cases "func a"; cases "the (func a)")
     (auto simp: destroy_def contents_def destructor_calls_def)

text \<open>Copy and move construction succeed exactly when both objects are within bounds.\<close>

lemma construct_from_eq:
  "size_of (decl U) \<le> length src \<Longrightarrow> size_of (decl U) \<le> length dst \<Longrightarrow>
   construct_from U ev (Some dst) (Some src) =
     Inr \<lparr>this_mem = Some (take (size_of (decl U)) src @ drop (size_of (decl U)) dst),
          other_mem = Some src, calls = [ev], returned = typeid (Object U)\<rparr>"
  by (simp add: construct_from_def load_def placement_new_def)

lemma construct_from_Inr:
  "construct_from U ev (Some dst) (Some src) = Inr r \<Longrightarrow>
   size_of (decl U) \<le> length src \<and> size_of (decl U) \<le> length dst"
  by (auto simp: construct_from_def load_def placement_new_def split: if_splits)

lemma copy_from_another_eq:
  assumes "func another = Some (Operation tu U)"
    and "size_of (decl U) \<le> capacity another" and "size_of (decl U) \<le> capacity a"
  shows "copy_from_another a another =
     Inr (\<lparr>buff = take (size_of (decl U)) (buff another) @ drop (size_of (decl U)) (buff a),
          func = Some (Operation tu U)\<rparr>, another, [Copy_constructed U])"
  using assms
  by (simp add: copy_from_another_def capacity_def construct_from_eq contents_def Let_def)

lemma copy_from_another_Inr:
  assumes "func another = Some (Operation tu U)"
    and "copy_from_another a another = Inr res"
  shows "size_of (decl U) \<le> capacity another \<and> size_of (decl U) \<le> capacity a"
  using assms construct_from_Inr [of U "Copy_constructed U" "buff a" "buff another"]
  by (auto simp: copy_from_another_def capacity_def Let_def split: sum.splits)

lemma load_prefix:
  "length v = size_of (decl U) \<Longrightarrow> load U (v @ rest) = Inr v"
  by (simp add: load_def)


text \<open>Storing a value, and constructing one in place.\<close>

lemma size_of_normalised:
  "size_of (decl (remove_cv_t (remove_reference_t T))) = sizeof T"
  by (simp add: sizeof_def remove_cv_t_def)

lemma typeid_normalised:
  "typeid (Object (remove_cv_t (remove_reference_t T))) = typeid T"
  by (simp add: typeid_def remove_cv_t_def)

lemma instantiated_for_get_function:
  "instantiated_for (get_function_for_type tu T) = remove_cv_t (remove_reference_t T)"
  by (simp add: get_function_for_type_def)

lemma copy_or_move_eq:
  assumes "sizeof T \<le> capacity a" and "func a = None" and "sizeof T \<le> length t"
  shows "copy_or_move tu T a t =
     Inr (\<lparr>buff = take (sizeof T) t @ drop (sizeof T) (buff a),
           func = Some (get_function_for_type tu T)\<rparr>,
          [if is_rvalue_reference (add_rvalue_reference T)
           then Move_constructed (remove_cv_t (remove_reference_t T))
           else Copy_constructed (remove_cv_t (remove_reference_t T))])"
  using assms
  by (simp add: copy_or_move_def call_function_def get_function_for_type_def Let_def
      capacity_def construct_from_eq size_of_normalised contents_def)

lemma copy_or_move_too_big:
  "capacity a < sizeof T \<Longrightarrow>
   copy_or_move tu T a t = Inl (Static_assert_failed ''_T is too big to be copied to static_any'')"
  by (simp add: copy_or_move_def)

lemma emplace_eq:
  "size_of (decl T) \<le> capacity a \<Longrightarrow>
   emplace tu T a v =
     Inr (\<lparr>buff = v @ drop (size_of (decl T)) (buff a),
           func = Some (get_function_for_type tu (Object T))\<rparr>,
          destructor_calls a @ [Constructed T])"
  by (simp add: emplace_def destroy_eq placement_new_def capacity_def)

lemma emplace_out_of_bounds:
  "capacity a < size_of (decl T) \<Longrightarrow> emplace tu T a v = Inl Out_of_bounds"
  by (simp add: emplace_def destroy_eq placement_new_def capacity_def)

text \<open>The accessors.\<close>

lemma deref_as:
  "deref b (as a T) = load T b"
  by (simp add: deref_def as_def)

lemma load_same_decl:
  "decl U = decl T \<Longrightarrow> load U b = load T b"
  by (simp add: load_def)

lemma any_cast_reference_eq:
  "any_cast_reference tu T a =
     (if has tu a (Object T) = Inr True then Inr (as a T)
      else Inl (Thrown (new_bad_any_cast
             (case func a of None \<Rightarrow> Typeid_void
              | Some f \<Rightarrow> typeid (Object (instantiated_for f)))
             (typeid (Object T)))))"
  by (simp add: any_cast_reference_def has_eq type_eq)

lemma any_cast_pointer_eq:
  "any_cast_pointer tu T a =
     Inr (if has tu a (Object T) = Inr True then Some (as a T) else None)"
  by (simp add: any_cast_pointer_def has_eq)

text \<open>
  \<^verbatim>\<open>static_any_t\<close>: a trivially copyable type that fits is copied byte by byte and read
  back; every other deduced type is rejected by one of the two \<^verbatim>\<open>static_assert\<close>s.
\<close>

lemma copy_rvalue:
  assumes "is_trivially_copyable ValueT" and "sizeof ValueT \<le> capacity_t a"
    and "length t = sizeof ValueT"
  shows "copy ValueT a t = Inr \<lparr>pod_buff = t @ drop (sizeof ValueT) (pod_buff a)\<rparr>"
  using assms by (simp add: copy_def memcpy_def capacity_t_def)

lemma copy_rejects:
  "\<not> is_trivially_copyable ValueT \<or> capacity_t a < sizeof ValueT \<Longrightarrow>
   \<exists>msg. copy ValueT a t = Inl (Static_assert_failed msg)"
  by (auto simp: copy_def)

text \<open>The constructor and the assignment from a value reject a type that is too big.\<close>

lemma value_too_big_rejected:
  assumes "length b < sizeof T" and "capacity a < sizeof T"
  shows "static_any_of_value tu T b v
           = Inl (Static_assert_failed ''_T is too big to be copied to static_any'')"
    and "assign_value tu T a t
           = (if is_const_lvalue T
              then Inl (Ill_formed ''no matching function for call to forward'')
              else Inl (Static_assert_failed ''_T is too big to be copied to static_any''))"
  using assms
  by (simp_all add: static_any_of_value_def assign_value_def destroy_eq copy_or_move_too_big
      capacity_def static_any_default_def)

text \<open>
  A container assigned to itself is emptied: its value is destroyed, and there is nothing
  left to copy. The two components that \<open>copy_from_another\<close> returns agree when it is
  given one object twice, so the aliased call has one outcome.
\<close>

lemma copy_from_another_aliased:
  "copy_from_another a a = Inr (a2, another', ev) \<Longrightarrow> a2 = another'"
  by (cases "func a"; cases "the (func a)")
     (auto simp: copy_from_another_def Let_def contents_def construct_from_def load_def
       placement_new_def split: if_splits)

lemma assign_itself:
  "assign_move a Itself = Inr (a\<lparr>func := None\<rparr>, a\<lparr>func := None\<rparr>, destructor_calls a)"
  "assign_copy a Itself = Inr (a\<lparr>func := None\<rparr>, a\<lparr>func := None\<rparr>, destructor_calls a)"
  by (simp_all add: assign_move_def assign_copy_def destroy_eq copy_from_another_def)

lemma static_any_t_copies_bytes:
  assumes "is_trivially_copyable ValueT" and "sizeof ValueT \<le> capacity_t a"
    and "length t = sizeof ValueT"
  shows "assign_t ValueT a t = Inr \<lparr>pod_buff = t @ drop (sizeof ValueT) (pod_buff a)\<rparr>"
    and "static_any_t_of_value ValueT (pod_buff a) t
           = Inr \<lparr>pod_buff = t @ drop (sizeof ValueT) (pod_buff a)\<rparr>"
    and "deref (t @ drop (sizeof ValueT) (pod_buff a))
           (get_t (remove_reference_t ValueT) \<lparr>pod_buff = t @ drop (sizeof ValueT) (pod_buff a)\<rparr>)
           = Inr t"
  using assms copy_rvalue [of ValueT a t] copy_rvalue [of ValueT "\<lparr>pod_buff = pod_buff a\<rparr>" t]
  by (simp_all add: assign_t_def static_any_t_of_value_def capacity_t_def deref_def get_t_def
      load_def sizeof_def)

text \<open>The invariant holds of a fresh container and of what each operation returns.\<close>

lemma in_bounds_default: "in_bounds (static_any_default b)"
  by (simp add: in_bounds_def static_any_default_def)

lemma in_bounds_destroy:
  "destroy a = Inr (a', ev) \<Longrightarrow> in_bounds a' \<and> empty a' \<and> capacity a' = capacity a"
  by (auto simp: destroy_eq in_bounds_def empty_def capacity_def)

lemma in_bounds_copy_or_move:
  assumes "copy_or_move tu T a t = Inr (a', ev)"
  shows "in_bounds a' \<and> capacity a' = capacity a"
proof -
  from assms have fits: "sizeof T \<le> capacity a" and fresh: "func a = None"
    by (auto simp: copy_or_move_def split: if_splits)
  have src: "sizeof T \<le> length t"
  proof (rule ccontr)
    assume "\<not> sizeof T \<le> length t"
    then have "copy_or_move tu T a t = Inl Out_of_bounds"
      using fits fresh
      by (simp add: copy_or_move_def call_function_def get_function_for_type_def Let_def
          construct_from_def load_def size_of_normalised)
    with assms show False by simp
  qed
  from assms copy_or_move_eq [OF fits fresh src, of tu] fits src show ?thesis
    by (auto simp: in_bounds_def capacity_def instantiated_for_get_function size_of_normalised)
qed

lemma in_bounds_emplace:
  assumes "emplace tu T a v = Inr (a', ev)" and "length v = size_of (decl T)"
  shows "in_bounds a' \<and> capacity a' = capacity a"
proof -
  have fits: "size_of (decl T) \<le> capacity a"
  proof (rule ccontr)
    assume "\<not> size_of (decl T) \<le> capacity a"
    then have "emplace tu T a v = Inl Out_of_bounds"
      by (simp add: emplace_out_of_bounds)
    with assms(1) show False by simp
  qed
  from assms emplace_eq [OF fits, of tu v] fits show ?thesis
    by (auto simp: in_bounds_def capacity_def get_function_for_type_def remove_cv_t_def)
qed

lemma in_bounds_copy_from_another:
  assumes "copy_from_another a another = Inr (a', another', ev)" and "in_bounds a"
  shows "in_bounds a' \<and> capacity a' = capacity a"
proof (cases "func another")
  case None
  with assms show ?thesis by (simp add: copy_from_another_def)
next
  case (Some f)
  obtain tu U where f: "f = Operation tu U" by (cases f)
  from Some f have src: "func another = Some (Operation tu U)" by simp
  from copy_from_another_Inr [OF src assms(1)]
  have fits: "size_of (decl U) \<le> capacity another" "size_of (decl U) \<le> capacity a"
    by simp_all
  from assms(1) copy_from_another_eq [OF src fits] fits show ?thesis
    by (auto simp: in_bounds_def capacity_def)
qed

section \<open>The claims\<close>




text \<open>
  Claim C2. Storing a value whose type is larger than the capacity is rejected at compile
  time by the constructor from a value and by the assignment from a value, but not by
  \<^verbatim>\<open>emplace\<close>: it has no \<^verbatim>\<open>static_assert\<close>, so \<^verbatim>\<open>emplace<double>(3.5)\<close> on a
  \<^verbatim>\<open>static_any<4>\<close> compiles, and constructs the eight bytes in a buffer of four.
\<close>

theorem emplace_oversized_not_rejected:
  "emplace 0 double_t (static_any_default [0, 0, 0, 0]) [0, 0, 0, 0, 0, 0, 12, 64]
     = Inl Out_of_bounds
   \<and> static_any_of_value 0 (Object double_t) [0, 0, 0, 0] [0, 0, 0, 0, 0, 0, 12, 64]
     = Inl (Static_assert_failed ''_T is too big to be copied to static_any'')
   \<and> assign_value 0 (Object double_t) (static_any_default [0, 0, 0, 0])
        [0, 0, 0, 0, 0, 0, 12, 64]
     = Inl (Static_assert_failed ''_T is too big to be copied to static_any'')"
  by (simp add: int_t_def double_t_def unqualified_def holds_int_def holds_double_def emplace_def destroy_def placement_new_def static_any_default_def
      static_any_of_value_def assign_value_def copy_or_move_def capacity_def sizeof_def)

text \<open>
  Claim C3. For a type of size at most \<open>N\<close> that is not a specialisation of
  \<^verbatim>\<open>static_any\<close> (so that the argument selects the constructor \<^verbatim>\<open>static_any(_T&&)\<close>) and
  a value \<open>v\<close> of that type, the container constructed from \<open>v\<close> (from an lvalue or from
  an rvalue: \<open>T\<close> is the deduced type) gives \<open>v\<close> back through \<^verbatim>\<open>get\<close>, which is
  \<^verbatim>\<open>any_cast\<close> on a reference, asked for the type of \<open>v\<close> with or without qualifiers,
  from any translation unit.
\<close>

theorem construct_then_get:
  assumes "selected_constructor T = From_value"
    and "sizeof T \<le> length b" and "length v = sizeof T"
  shows "\<exists>a ev. static_any_of_value tu T b v = Inr (a, ev)
           \<and> capacity a = length b
           \<and> (\<forall>tu' U. decl U = decl (remove_reference_t T) \<longrightarrow>
                 (\<exists>p. get tu' U a = Inr p \<and> any_cast_reference tu' U a = Inr p
                      \<and> deref (buff a) p = Inr v))"
proof -
  let ?a = "\<lparr>buff = take (sizeof T) v @ drop (sizeof T) b,
             func = Some (get_function_for_type tu T)\<rparr>"
  have made: "static_any_of_value tu T b v = Inr (?a,
      [if is_rvalue_reference (add_rvalue_reference T)
       then Move_constructed (remove_cv_t (remove_reference_t T))
       else Copy_constructed (remove_cv_t (remove_reference_t T))])"
    using assms
    by (simp add: static_any_of_value_def copy_or_move_eq capacity_def static_any_default_def)
  have cap: "capacity ?a = length b"
    using assms by (simp add: capacity_def)
  have read: "\<exists>p. get tu' U ?a = Inr p \<and> any_cast_reference tu' U ?a = Inr p
      \<and> deref (buff ?a) p = Inr v"
    if "decl U = decl (remove_reference_t T)" for tu' U
  proof -
    have "has tu' ?a (Object U) = Inr True"
      using that by (simp add: has_eq instantiated_for_get_function typeid_def remove_cv_t_def)
    then have "any_cast_reference tu' U ?a = Inr (as ?a U)"
      by (simp add: any_cast_reference_eq)
    moreover have "deref (buff ?a) (as ?a U) = Inr v"
      using that assms by (simp add: deref_as load_def sizeof_def)
    ultimately show ?thesis by (simp add: get_def)
  qed
  show ?thesis
    using made cap read by blast
qed

theorem construct_then_get_witness:
  "selected_constructor (Lvalue_ref int_t) = From_value
   \<and> sizeof (Lvalue_ref int_t) \<le> length [0, 0, 0, 0, 0, 0, 0, 0 :: byte]
   \<and> length [42, 0, 0, 0 :: byte] = sizeof (Lvalue_ref int_t)
   \<and> static_any_of_value 0 (Lvalue_ref int_t) [0, 0, 0, 0, 0, 0, 0, 0] [42, 0, 0, 0]
       = Inr (\<lparr>buff = [42, 0, 0, 0, 0, 0, 0, 0], func = Some (Operation 0 int_t)\<rparr>,
              [Copy_constructed int_t])
   \<and> decl int_t = decl (remove_reference_t (Lvalue_ref int_t))
   \<and> get 1 int_t \<lparr>buff = [42, 0, 0, 0, 0, 0, 0, 0], func = Some (Operation 0 int_t)\<rparr>
       = Inr \<lparr>offset = 0, pointee = int_t\<rparr>
   \<and> deref [42, 0, 0, 0, 0, 0, 0, 0] \<lparr>offset = 0, pointee = int_t\<rparr> = Inr [42, 0, 0, 0]"
  using construct_then_get [of "Lvalue_ref int_t" "[0, 0, 0, 0, 0, 0, 0, 0]" "[42, 0, 0, 0]" 0]
  by (simp add: int_t_def double_t_def unqualified_def holds_int_def holds_double_def
      selected_constructor_def is_container_def
      static_any_of_value_def copy_or_move_def call_function_def get_function_for_type_def remove_cv_t_def static_any_default_def capacity_def sizeof_def
      construct_from_def load_def placement_new_def contents_def get_def
      any_cast_reference_def has_def as_def deref_def)

text \<open>
  For a value of type \<^verbatim>\<open>static_any<16>\<close> the statement fails, although the type has 24
  bytes and fits a \<^verbatim>\<open>static_any<24>\<close>: the argument selects the constructor from another
  container, which stores a copy of the \<^verbatim>\<open>int\<close> that the argument holds and not the
  argument. \<^verbatim>\<open>get<static_any<16>>()\<close> on the new container throws \<^verbatim>\<open>bad_any_cast\<close>.
\<close>

theorem construct_from_container_counterexample:
  "sizeof (Lvalue_ref static_any_16_t)
     \<le> length [9, 9, 9, 9, 9, 9, 9, 9, 9, 9, 9, 9, 9, 9, 9, 9, 9, 9, 9, 9, 9, 9, 9, 9 :: byte]
   \<and> capacity holds_int_16 = 16
   \<and> selected_constructor (Lvalue_ref static_any_16_t) = From_container
   \<and> selected_constructor (Object static_any_16_t) = From_container
   \<and> static_any_copy [9, 9, 9, 9, 9, 9, 9, 9, 9, 9, 9, 9, 9, 9, 9, 9, 9, 9, 9, 9, 9, 9, 9, 9]
        holds_int_16
       = Inr (\<lparr>buff = [42, 0, 0, 0, 9, 9, 9, 9, 9, 9, 9, 9, 9, 9, 9, 9, 9, 9, 9, 9, 9, 9, 9, 9],
                func = Some (Operation 0 int_t)\<rparr>,
              holds_int_16, [Copy_constructed int_t])
   \<and> get 0 static_any_16_t
        \<lparr>buff = [42, 0, 0, 0, 9, 9, 9, 9, 9, 9, 9, 9, 9, 9, 9, 9, 9, 9, 9, 9, 9, 9, 9, 9],
         func = Some (Operation 0 int_t)\<rparr>
       = Inl (Thrown (new_bad_any_cast (typeid (Object int_t))
                        (typeid (Object static_any_16_t))))"
  by (simp add: int_t_def static_any_16_t_def unqualified_def holds_int_16_def sizeof_def
      capacity_def selected_constructor_def is_container_def static_any_copy_def
      copy_from_another_def static_any_default_def construct_from_def load_def
      placement_new_def contents_def get_def any_cast_reference_def has_def
      get_function_for_type_def remove_cv_t_def typeid_def type_def empty_def)

text \<open>
  Claim C4. The accessor that returns a reference gives the start of the buffer as a \<open>T\<close>
  when \<^verbatim>\<open>has<T>()\<close> holds (reading through it loads the held object), and otherwise
  throws \<^verbatim>\<open>bad_any_cast\<close> with the identity \<^verbatim>\<open>type()\<close> reports as the stored type and
  the identity of \<open>T\<close> as the requested one. The stored identity is one for all requested
  types, so another \<open>T\<close> changes the requested field only.
\<close>

theorem any_cast_reference_result:
  "\<exists>stored. type a = Inr stored
     \<and> (\<forall>tu T. any_cast_reference tu T a =
            (if has tu a (Object T) = Inr True then Inr (as a T)
             else Inl (Thrown (new_bad_any_cast stored (typeid (Object T)))))
          \<and> get tu T a = any_cast_reference tu T a
          \<and> (has tu a (Object T) = Inr True \<or> has tu a (Object T) = Inr False)
          \<and> stored_type (new_bad_any_cast stored (typeid (Object T))) = stored
          \<and> target_type (new_bad_any_cast stored (typeid (Object T))) = typeid (Object T)
          \<and> (has tu a (Object T) = Inr True \<longrightarrow>
               (\<exists>f. func a = Some f
                  \<and> deref (buff a) (as a T) = load (instantiated_for f) (buff a))))"
proof -
  let ?stored = "case func a of None \<Rightarrow> Typeid_void
                 | Some f \<Rightarrow> typeid (Object (instantiated_for f))"
  have held: "\<exists>f. func a = Some f \<and> deref (buff a) (as a T) = load (instantiated_for f) (buff a)"
    if "has tu a (Object T) = Inr True" for tu T
    using that
    by (cases "func a") (auto simp: has_eq deref_as typeid_def intro: load_same_decl)
  have "type a = Inr ?stored"
    by (rule type_eq)
  moreover have "any_cast_reference tu T a =
            (if has tu a (Object T) = Inr True then Inr (as a T)
             else Inl (Thrown (new_bad_any_cast ?stored (typeid (Object T)))))" for tu T
    by (rule any_cast_reference_eq)
  moreover have "has tu a (Object T) = Inr True \<or> has tu a (Object T) = Inr False" for tu T
    by (simp add: has_eq)
  ultimately show ?thesis
    using held by (simp add: get_def new_bad_any_cast_def)
qed

theorem any_cast_reference_result_witness:
  "type holds_int = Inr (typeid (Object int_t))
   \<and> has 1 holds_int (Object int_t) = Inr True
   \<and> any_cast_reference 1 int_t holds_int = Inr \<lparr>offset = 0, pointee = int_t\<rparr>
   \<and> func holds_int = Some (Operation 0 int_t)
   \<and> deref (buff holds_int) (as holds_int int_t) = Inr [42, 0, 0, 0]
   \<and> any_cast_reference 1 double_t holds_int
       = Inl (Thrown (new_bad_any_cast (typeid (Object int_t)) (typeid (Object double_t))))
   \<and> any_cast_reference 1 (double_t\<lparr>is_const := True\<rparr>) holds_int
       = Inl (Thrown (new_bad_any_cast (typeid (Object int_t)) (typeid (Object double_t))))"
  using any_cast_reference_result [of holds_int]
  by (simp add: int_t_def double_t_def unqualified_def holds_int_def holds_double_def type_def empty_def has_def get_function_for_type_def remove_cv_t_def
      typeid_def any_cast_reference_def as_def deref_def load_def)

text \<open>
  Claim C5. \<^verbatim>\<open>emplace<T>(args...)\<close>, where \<open>v\<close> is the object the constructor builds from
  the arguments. Whenever it returns, the destructor of the value held before has been
  called first and the constructor of \<open>T\<close> after it, the buffer starts with \<open>v\<close>, and the
  container answers \<^verbatim>\<open>has<U>()\<close> with true exactly for the types \<open>U\<close> of the identity of
  \<open>T\<close> (\<open>T\<close> itself, with or without qualifiers and reference), with false for every
  type of another identity, and reports the identity of \<open>T\<close> as its type. It returns
  whenever \<open>T\<close> fits the capacity.
\<close>

theorem emplace_installs:
  "(size_of (decl T) \<le> capacity a \<longrightarrow>
      (\<exists>a'. emplace tu T a v = Inr (a', destructor_calls a @ [Constructed T])))
   \<and> (emplace tu T a v = Inr (a', ev) \<longrightarrow>
        ev = destructor_calls a @ [Constructed T]
        \<and> buff a' = v @ drop (size_of (decl T)) (buff a)
        \<and> (length v = size_of (decl T) \<longrightarrow> load T (buff a') = Inr v)
        \<and> has tu' a' (Object T) = Inr True
        \<and> (\<forall>U. has tu' a' U = Inr (typeid U = typeid (Object T)))
        \<and> (\<forall>U. typeid U \<noteq> typeid (Object T) \<longrightarrow> has tu' a' U = Inr False)
        \<and> type a' = Inr (typeid (Object T)))"
proof (intro conjI impI)
  assume "size_of (decl T) \<le> capacity a"
  then show "\<exists>a'. emplace tu T a v = Inr (a', destructor_calls a @ [Constructed T])"
    by (simp add: emplace_eq)
next
  assume ret: "emplace tu T a v = Inr (a', ev)"
  have fits: "size_of (decl T) \<le> capacity a"
  proof (rule ccontr)
    assume "\<not> size_of (decl T) \<le> capacity a"
    then have "emplace tu T a v = Inl Out_of_bounds"
      by (simp add: emplace_out_of_bounds)
    with ret show False by simp
  qed
  from ret emplace_eq [OF fits, of tu v]
  have a': "a' = \<lparr>buff = v @ drop (size_of (decl T)) (buff a),
                  func = Some (get_function_for_type tu (Object T))\<rparr>"
    and ev: "ev = destructor_calls a @ [Constructed T]"
    by simp_all
  show "ev = destructor_calls a @ [Constructed T]" by (rule ev)
  show "buff a' = v @ drop (size_of (decl T)) (buff a)" by (simp add: a')
  show "load T (buff a') = Inr v" if "length v = size_of (decl T)"
    using that by (simp add: a' load_prefix)
  show "has tu' a' (Object T) = Inr True"
    by (simp add: a' has_eq instantiated_for_get_function typeid_def remove_cv_t_def)
  show "\<forall>U. has tu' a' U = Inr (typeid U = typeid (Object T))"
    by (simp add: a' has_eq instantiated_for_get_function typeid_def remove_cv_t_def)
  show "\<forall>U. typeid U \<noteq> typeid (Object T) \<longrightarrow> has tu' a' U = Inr False"
    by (simp add: a' has_eq instantiated_for_get_function typeid_def remove_cv_t_def)
  show "type a' = Inr (typeid (Object T))"
    by (simp add: a' type_eq instantiated_for_get_function typeid_def remove_cv_t_def)
qed

theorem emplace_installs_witness:
  "size_of (decl double_t) \<le> capacity holds_int
   \<and> length [0, 0, 0, 0, 0, 0, 12, 64 :: byte] = size_of (decl double_t)
   \<and> emplace 0 double_t holds_int [0, 0, 0, 0, 0, 0, 12, 64]
       = Inr (holds_double, [Destroyed int_t, Constructed double_t])
   \<and> load double_t (buff holds_double) = Inr [0, 0, 0, 0, 0, 0, 12, 64]
   \<and> has 1 holds_double (Object double_t) = Inr True
   \<and> typeid (Object int_t) \<noteq> typeid (Object double_t)
   \<and> has 1 holds_double (Object int_t) = Inr False
   \<and> type holds_double = Inr (typeid (Object double_t))"
  using emplace_installs [of double_t holds_int 0 "[0, 0, 0, 0, 0, 0, 12, 64]" holds_double
      "[Destroyed int_t, Constructed double_t]" 1]
  by (simp add: int_t_def double_t_def unqualified_def holds_int_def holds_double_def emplace_def destroy_def contents_def placement_new_def capacity_def
      get_function_for_type_def remove_cv_t_def load_def has_def typeid_def type_def empty_def)

text \<open>
  For every type \<open>U\<close> distinct from \<open>T\<close> the answer is not false: \<^verbatim>\<open>const double\<close> and
  \<^verbatim>\<open>double&\<close> are types distinct from \<^verbatim>\<open>double\<close>, and after \<^verbatim>\<open>emplace<double>(3.5)\<close>
  the container answers true to \<^verbatim>\<open>has<const double>()\<close> and to \<^verbatim>\<open>has<double&>()\<close>.
\<close>

theorem has_qualified_after_emplace_counterexample:
  "Object (double_t\<lparr>is_const := True\<rparr>) \<noteq> Object double_t
   \<and> Lvalue_ref double_t \<noteq> Object double_t
   \<and> emplace 0 double_t holds_int [0, 0, 0, 0, 0, 0, 12, 64]
       = Inr (holds_double, [Destroyed int_t, Constructed double_t])
   \<and> has 0 holds_double (Object (double_t\<lparr>is_const := True\<rparr>)) = Inr True
   \<and> has 0 holds_double (Lvalue_ref double_t) = Inr True"
  by (simp add: int_t_def double_t_def unqualified_def holds_int_def holds_double_def
      emplace_def destroy_def contents_def placement_new_def capacity_def
      get_function_for_type_def remove_cv_t_def has_def typeid_def)

text \<open>
  Claim C6. The accessor that returns a pointer never fails: it gives the start of the
  buffer as a pointer to \<open>T\<close> when \<^verbatim>\<open>has<T>()\<close> holds, and the null pointer otherwise.
  Reading through the pointer loads the held object, and succeeds when that object lies
  within the buffer.
\<close>

theorem any_cast_pointer_result:
  "any_cast_pointer tu T a = Inr (if has tu a (Object T) = Inr True then Some (as a T) else None)
   \<and> (has tu a (Object T) = Inr True \<or> has tu a (Object T) = Inr False)
   \<and> offset (as a T) = 0 \<and> pointee (as a T) = T
   \<and> (has tu a (Object T) = Inr True \<longrightarrow>
        (\<exists>f. func a = Some f
           \<and> deref (buff a) (as a T) = load (instantiated_for f) (buff a)
           \<and> (size_of (decl (instantiated_for f)) \<le> capacity a \<longrightarrow>
                deref (buff a) (as a T) = Inr (take (size_of (decl T)) (buff a)))))"
proof -
  have held: "\<exists>f. func a = Some f
           \<and> deref (buff a) (as a T) = load (instantiated_for f) (buff a)
           \<and> (size_of (decl (instantiated_for f)) \<le> capacity a \<longrightarrow>
                deref (buff a) (as a T) = Inr (take (size_of (decl T)) (buff a)))"
    if "has tu a (Object T) = Inr True"
    using that
    by (cases "func a")
       (auto simp: has_eq deref_as typeid_def capacity_def load_def)
  have "has tu a (Object T) = Inr True \<or> has tu a (Object T) = Inr False"
    by (simp add: has_eq)
  then show ?thesis
    using held by (simp add: any_cast_pointer_eq as_def)
qed

theorem any_cast_pointer_result_witness:
  "has 1 holds_int (Object int_t) = Inr True
   \<and> any_cast_pointer 1 int_t holds_int = Inr (Some \<lparr>offset = 0, pointee = int_t\<rparr>)
   \<and> func holds_int = Some (Operation 0 int_t)
   \<and> size_of (decl (instantiated_for (Operation 0 int_t))) \<le> capacity holds_int
   \<and> deref (buff holds_int) (as holds_int int_t) = Inr [42, 0, 0, 0]
   \<and> has 1 holds_int (Object double_t) = Inr False
   \<and> any_cast_pointer 1 double_t holds_int = Inr None"
  using any_cast_pointer_result [of 1 int_t holds_int]
  by (simp add: int_t_def double_t_def unqualified_def holds_int_def holds_double_def has_def get_function_for_type_def remove_cv_t_def typeid_def
      any_cast_pointer_def as_def deref_def load_def capacity_def)

text \<open>
  Claim C7. A freshly default-constructed container, whatever its capacity and whatever the
  bytes of its uninitialised buffer, is empty, holds no type \<open>T\<close> (asked from any
  translation unit), and reports the identity of \<^verbatim>\<open>void\<close> as its type.
\<close>

theorem default_constructed_is_empty:
  "empty (static_any_default b) = True
   \<and> has tu (static_any_default b) T = Inr False
   \<and> type (static_any_default b) = Inr Typeid_void"
  by (simp add: empty_def has_def type_def static_any_default_def)

text \<open>
  Claim C8. \<^verbatim>\<open>static_any_t\<close> copies the bytes of a trivially copyable value that fits when
  the argument is an rvalue. For an lvalue argument the deduced \<^verbatim>\<open>_ValueT\<close> is a reference
  type, which \<^verbatim>\<open>std::is_trivially_copyable\<close> does not hold of: constructing or assigning
  from a variable of type \<^verbatim>\<open>int\<close> is rejected by the first \<^verbatim>\<open>static_assert\<close> of
  \<^verbatim>\<open>copy\<close>, although \<^verbatim>\<open>int\<close> is trivially copyable and fits.
\<close>

theorem static_any_t_rejects_lvalue:
  "trivially_copyable (decl int_t) = True
   \<and> sizeof (Lvalue_ref int_t) \<le> capacity_t \<lparr>pod_buff = [9, 9, 9, 9, 9, 9, 9, 9]\<rparr>
   \<and> static_any_t_of_value (Lvalue_ref int_t) [9, 9, 9, 9, 9, 9, 9, 9] [42, 0, 0, 0]
       = Inl (Static_assert_failed ''_ValueT is not trivially copyable'')
   \<and> assign_t (Lvalue_ref int_t) \<lparr>pod_buff = [9, 9, 9, 9, 9, 9, 9, 9]\<rparr> [42, 0, 0, 0]
       = Inl (Static_assert_failed ''_ValueT is not trivially copyable'')
   \<and> assign_t (Object int_t) \<lparr>pod_buff = [9, 9, 9, 9, 9, 9, 9, 9]\<rparr> [42, 0, 0, 0]
       = Inr \<lparr>pod_buff = [42, 0, 0, 0, 9, 9, 9, 9]\<rparr>
   \<and> deref [42, 0, 0, 0, 9, 9, 9, 9]
        (get_t int_t \<lparr>pod_buff = [42, 0, 0, 0, 9, 9, 9, 9]\<rparr>) = Inr [42, 0, 0, 0]"
  by (simp add: int_t_def double_t_def unqualified_def holds_int_def holds_double_def static_any_t_of_value_def assign_t_def copy_def memcpy_def capacity_t_def
      sizeof_def get_t_def deref_def load_def)

text \<open>
  Claim C9. The dispatch routine is selected for the type without reference and without
  qualifiers: \<open>T\<close>, \<^verbatim>\<open>const T\<close>, \<^verbatim>\<open>volatile T\<close>, \<^verbatim>\<open>T&\<close> and \<^verbatim>\<open>T&&\<close> select the same
  routine, that of the unqualified \<open>T\<close>. So a container that holds a \<open>T\<close>, stored from any
  translation unit, answers true to \<^verbatim>\<open>has<T>()\<close>, \<^verbatim>\<open>has<const T>()\<close>,
  \<^verbatim>\<open>has<T&>()\<close> and \<^verbatim>\<open>has<const T&>()\<close>, and \<^verbatim>\<open>copy_or_move\<close> installs that routine
  whether the value is stored from a \<^verbatim>\<open>const\<close> lvalue, an lvalue or an rvalue.
\<close>

theorem has_ignores_cv_and_reference:
  "get_function_for_type tu (Object (T\<lparr>is_const := True\<rparr>)) = get_function_for_type tu (Object T)
   \<and> get_function_for_type tu (Object (T\<lparr>is_volatile := True\<rparr>)) = get_function_for_type tu (Object T)
   \<and> get_function_for_type tu (Lvalue_ref T) = get_function_for_type tu (Object T)
   \<and> get_function_for_type tu (Rvalue_ref T) = get_function_for_type tu (Object T)
   \<and> get_function_for_type tu (Object T) = Operation tu (remove_cv_t T)
   \<and> (func a = Some (get_function_for_type su (Object T)) \<longrightarrow>
        has tu a (Object T) = Inr True
        \<and> has tu a (Object (T\<lparr>is_const := True\<rparr>)) = Inr True
        \<and> has tu a (Lvalue_ref T) = Inr True
        \<and> has tu a (Lvalue_ref (T\<lparr>is_const := True\<rparr>)) = Inr True)
   \<and> (copy_or_move su (Lvalue_ref (T\<lparr>is_const := True\<rparr>)) c t = Inr (a, ev)
       \<or> copy_or_move su (Lvalue_ref T) c t = Inr (a, ev)
       \<or> copy_or_move su (Object T) c t = Inr (a, ev) \<longrightarrow>
        func a = Some (get_function_for_type su (Object T)))"
  by (auto simp: get_function_for_type_def remove_cv_t_def has_eq typeid_def copy_or_move_def
      Let_def split: if_splits sum.splits)

theorem has_ignores_cv_and_reference_witness:
  "copy_or_move 0 (Lvalue_ref (int_t\<lparr>is_const := True\<rparr>))
        (static_any_default [7, 7, 7, 7, 7, 7, 7, 7]) [42, 0, 0, 0]
       = Inr (holds_int, [Copy_constructed int_t])
   \<and> func holds_int = Some (get_function_for_type 0 (Object int_t))
   \<and> has 1 holds_int (Object int_t) = Inr True
   \<and> has 1 holds_int (Object (int_t\<lparr>is_const := True\<rparr>)) = Inr True
   \<and> has 1 holds_int (Lvalue_ref int_t) = Inr True
   \<and> has 1 holds_int (Lvalue_ref (int_t\<lparr>is_const := True\<rparr>)) = Inr True"
  using has_ignores_cv_and_reference [of 1 int_t holds_int 0
      "static_any_default [7, 7, 7, 7, 7, 7, 7, 7]" "[42, 0, 0, 0]" "[Copy_constructed int_t]"]
  by (simp add: int_t_def double_t_def unqualified_def holds_int_def holds_double_def has_def get_function_for_type_def remove_cv_t_def typeid_def
      copy_or_move_def call_function_def static_any_default_def capacity_def sizeof_def
      construct_from_def load_def placement_new_def contents_def)

text \<open>
  Claim C10. On an empty container the accessor that returns a reference throws
  \<^verbatim>\<open>bad_any_cast\<close>, with the identity of \<^verbatim>\<open>void\<close> as the stored type and the identity
  of \<open>T\<close> as the requested one; it is no assertion failure and no access out of bounds.
\<close>

theorem any_cast_reference_on_empty:
  "any_cast_reference tu T (static_any_default b)
     = Inl (Thrown (new_bad_any_cast Typeid_void (typeid (Object T))))
   \<and> (empty a \<longrightarrow>
        any_cast_reference tu T a = Inl (Thrown (new_bad_any_cast Typeid_void (typeid (Object T))))
        \<and> get tu T a = any_cast_reference tu T a)
   \<and> stored_type (new_bad_any_cast Typeid_void (typeid (Object T))) = Typeid_void
   \<and> target_type (new_bad_any_cast Typeid_void (typeid (Object T))) = typeid (Object T)"
  by (simp add: any_cast_reference_eq has_eq empty_def static_any_default_def get_def
      new_bad_any_cast_def)

theorem any_cast_reference_on_empty_witness:
  "empty (static_any_default [1, 2, 3, 4])
   \<and> any_cast_reference 0 int_t (static_any_default [1, 2, 3, 4])
       = Inl (Thrown \<lparr>stored_type = Typeid_void, target_type = typeid (Object int_t),
                      what = ''failed conversion using any_cast: stored type void, trying to cast to int''\<rparr>)
   \<and> get 0 int_t (static_any_default [1, 2, 3, 4])
       = any_cast_reference 0 int_t (static_any_default [1, 2, 3, 4])"
  using any_cast_reference_on_empty [of 0 int_t "[1, 2, 3, 4]" "static_any_default [1, 2, 3, 4]"]
  by (simp add: int_t_def double_t_def unqualified_def holds_int_def holds_double_def empty_def static_any_default_def any_cast_reference_def has_def type_def
      new_bad_any_cast_def typeid_def get_def)

end
